theory Spec2Isabelle
  imports Complex_Main
begin

section \<open>The navigation engine of \<open>src/hooks/useNavigationEngine.ts\<close>\<close>

text \<open>
  The hook \<open>useNavigationEngine\<close> consumes GPS fixes and an ordered list of path nodes
  and keeps eight \<open>useState\<close> cells plus one \<open>useRef\<close> cell. The embedding below follows
  the file function by function.

  Conventions of the embedding:
  \<^item> a coordinate, a bearing and a heading stored by the hook are \<open>real\<close>; a distance is a
    \<open>number\<close>, which is a real or \<open>NaN\<close>, because \<open>calculateDistance\<close> takes a square root
    of a rounded value; infinities and the sign of zero are not modelled;
  \<^item> \<open>calculateDistance\<close> evaluates through the floating-point arithmetic of the platform,
    which is a parameter; the other functions compute exactly;
  \<^item> array indices are \<open>nat\<close>, and \<open>pathNodes.length - 1\<close> is computed over \<open>int\<close>, where it
    is \<open>-1\<close> for the empty array;
  \<^item> an optional field (\<open>f?: T\<close>) and a nullable cell (\<open>T | null\<close>) are \<open>T option\<close>; a
    property of an untyped object is missing, \<open>null\<close> or a value;
  \<^item> the \<open>useState\<close> cells are the fields of a record; a callback takes the cells of the
    render that created it and returns the cells after all its queued updates;
  \<^item> a value that a callback captured from its render is an explicit argument.
\<close>

subsection \<open>Data\<close>

datatype number = NaN | Finite real

datatype 'a property = Undefined | Null | Value 'a

record GeoPoint =
  latitude :: real
  longitude :: real

text \<open>\<open>GPSLocation\<close> has the two coordinates of a \<open>GeoPoint\<close> and two more fields.\<close>

record GPSLocation = GeoPoint +
  accuracy :: real
  timestamp :: real

record Landmark =
  name :: string
  landmark_description :: string

datatype NodeType = waypoint | turn | landmark_node | transition

text \<open>
  \<open>PathNode\<close> of \<open>src/types/firestore.ts\<close>. The fields \<open>id\<close>, \<open>order\<close>, \<open>type\<close>,
  \<open>description\<close>, \<open>heading\<close> and \<open>floor\<close> are renamed because a record field is a global
  constant; \<open>createdAt\<close> and \<open>updatedAt\<close> are dates the engine never reads and are left
  out. \<open>floor\<close> is a number in the source; the model keeps the integral floor levels.
\<close>

record PathNode =
  node_id :: string
  routeId :: string
  coordinates :: GeoPoint
  node_order :: int
  node_type :: NodeType
  node_description :: string
  node_heading :: "real option"
  instructionText :: "string option"
  landmark :: "Landmark option"
  floor_level :: "int option"
  isIndoor :: bool

text \<open>
  The argument of the success callback of \<open>Geolocation.watchPosition\<close>:
  \<open>position.coords.{latitude, longitude, accuracy, heading}\<close> and \<open>position.timestamp\<close>.
  The parameter is declared \<open>any\<close>, so \<open>heading\<close> is missing, \<open>null\<close> or a number, and
  the number may be \<open>NaN\<close>.
\<close>

record Coords = GeoPoint +
  coords_accuracy :: real
  heading :: "number property"

record Position =
  coords :: Coords
  position_timestamp :: real

text \<open>The argument of the error callback; only \<open>error.message\<close> is read.\<close>

record GeoError =
  message :: string

text \<open>
  The arguments of the hook. An array is an object: \<open>p_pathNodesRef\<close> is its identity,
  which is what \<open>useCallback\<close> compares, and \<open>p_pathNodes\<close> is its content.
\<close>

record Props =
  p_pathNodes :: "PathNode list"
  p_pathNodesRef :: nat
  p_enabled :: bool
  p_updateInterval :: real

text \<open>
  The dependency array of the effect,
  \<open>[enabled, pathNodes.length, updateInterval, handleLocationUpdate, handleLocationError]\<close>.
  \<open>handleLocationError\<close> has no dependencies and never changes. \<open>handleLocationUpdate\<close>
  depends on \<open>updateNavigationState\<close>, which depends on \<open>[pathNodes, userHeading]\<close>: it is
  the same function as in the previous render exactly when the array object and the
  heading are the same, so the pair of the two stands for it.
\<close>

record EffectDeps =
  dep_enabled :: bool
  dep_length :: nat
  dep_updateInterval :: real
  dep_handleLocationUpdate :: "nat \<times> real option"

text \<open>
  The eight \<open>useState\<close> cells of the hook. \<open>EngineState\<close> adds the \<open>useRef\<close> cell
  \<open>watchIdRef\<close> and what React keeps of the effect: the dependencies of the previous
  render and whether the last run of the effect returned a cleanup function.
  \<open>NavigationOutput\<close> adds the derived field \<open>nextNodeIndex\<close>.
\<close>

record NavCells =
  currentLocation :: "GPSLocation option"
  nearestNodeIndex :: "nat option"
  distance :: number
  relativeBearing :: real
  userHeading :: "real option"
  movementInstruction :: string
  arrivednextNode :: bool
  arriveAtDestination :: bool

record EngineState = NavCells +
  watchIdRef :: "nat option"
  effectDeps :: "EffectDeps option"
  effectCleanup :: bool

record NavigationOutput = NavCells +
  nextNodeIndex :: "nat option"

text \<open>
  The location service. A success callback registered with \<open>watchPosition\<close> is the
  \<open>handleLocationUpdate\<close> of one render; it is kept as the path nodes and the heading that
  this render's \<open>updateNavigationState\<close> captured. \<open>watches\<close> maps every active watch
  identifier to its callback.
\<close>

record Callback =
  cb_pathNodes :: "PathNode list"
  cb_userHeading :: "real option"

record Geolocation =
  watches :: "nat \<rightharpoonup> Callback"
  nextWatchId :: nat

datatype error = TypeError

subsection \<open>JavaScript primitives\<close>

text \<open>A comparison with \<open>NaN\<close> on either side is false.\<close>

fun js_lt :: "number \<Rightarrow> number \<Rightarrow> bool" where
  "js_lt (Finite x) (Finite y) = (x < y)"
| "js_lt _ _ = False"

text \<open>
  The floating-point arithmetic of the platform: \<open>rnd\<close> rounds the exact result of an
  addition, subtraction, multiplication, division or square root to a number of the
  format, and \<open>fsin\<close>, \<open>fcos\<close>, \<open>fatan2\<close> and \<open>fPI\<close> are \<open>Math.sin\<close>, \<open>Math.cos\<close>,
  \<open>Math.atan2\<close> and \<open>Math.PI\<close>. \<open>Math.sqrt\<close> of a negative number is \<open>NaN\<close>, and an
  operation with a \<open>NaN\<close> operand gives \<open>NaN\<close>.
\<close>

record FloatArith =
  rnd :: "real \<Rightarrow> real"
  fsin :: "real \<Rightarrow> real"
  fcos :: "real \<Rightarrow> real"
  fatan2 :: "real \<Rightarrow> real \<Rightarrow> real"
  fPI :: real

definition js_sqrt :: "FloatArith \<Rightarrow> real \<Rightarrow> number" where
  "js_sqrt fp x = (if x < 0 then NaN else Finite (rnd fp (sqrt x)))"

text \<open>\<open>Math.atan2(y, x)\<close> on reals.\<close>

definition atan2 :: "real \<Rightarrow> real \<Rightarrow> real" where
  "atan2 y x =
     (if 0 < x then arctan (y / x)
      else if x < 0 \<and> 0 \<le> y then arctan (y / x) + pi
      else if x < 0 \<and> y < 0 then arctan (y / x) - pi
      else if 0 < y then pi / 2
      else if y < 0 then - (pi / 2)
      else 0)"

text \<open>The arithmetic without rounding error.\<close>

definition exactArith :: FloatArith where
  "exactArith = \<lparr>rnd = (\<lambda>x. x), fsin = sin, fcos = cos, fatan2 = atan2, fPI = pi\<rparr>"

text \<open>The remainder operator \<open>%\<close>: the quotient is truncated toward zero.\<close>

definition trunc :: "real \<Rightarrow> int" where
  "trunc r = (if r < 0 then \<lceil>r\<rceil> else \<lfloor>r\<rfloor>)"

definition js_rem :: "real \<Rightarrow> real \<Rightarrow> real" where
  "js_rem x y = x - y * of_int (trunc (x / y))"

text \<open>
  \<open>Math.round\<close> is \<open>\<lfloor>x + 1/2\<rfloor>\<close>, which is \<^const>\<open>round\<close>. A template literal prints
  an integral number in decimal (JavaScript does so below \<open>10^21\<close>).
\<close>

definition digit_char :: "nat \<Rightarrow> char" where
  "digit_char n = ''0123456789'' ! n"

function show_nat :: "nat \<Rightarrow> string" where
  "show_nat n =
     (if n < 10 then [digit_char n] else show_nat (n div 10) @ [digit_char (n mod 10)])"
  by pat_completeness auto
termination
  by (relation "measure (\<lambda>n. n)") auto

declare show_nat.simps [simp del]

definition show_int :: "int \<Rightarrow> string" where
  "show_int i = (if i < 0 then CHR ''-'' # show_nat (nat (- i)) else show_nat (nat i))"

subsection \<open>Geodesy\<close>

text \<open>
  Every operator of \<open>calculateDistance\<close> is the exact operation followed by \<open>rnd\<close>, in the
  order in which JavaScript evaluates the expression. The two square roots are the only
  places where \<open>NaN\<close> can arise from numbers: when the rounded \<open>a\<close> is negative or above 1.
\<close>

definition calculateDistance :: "FloatArith \<Rightarrow> real \<Rightarrow> real \<Rightarrow> real \<Rightarrow> real \<Rightarrow> number" where
  "calculateDistance fp lat1 lon1 lat2 lon2 =
     (let R = 6371000;
          dLat = rnd fp (rnd fp (rnd fp (lat2 - lat1) * fPI fp) / 180);
          dLon = rnd fp (rnd fp (rnd fp (lon2 - lon1) * fPI fp) / 180);
          a = rnd fp
                (rnd fp (fsin fp (rnd fp (dLat / 2)) * fsin fp (rnd fp (dLat / 2))) +
                 rnd fp
                   (rnd fp
                      (rnd fp
                         (fcos fp (rnd fp (rnd fp (lat1 * fPI fp) / 180)) *
                          fcos fp (rnd fp (rnd fp (lat2 * fPI fp) / 180))) *
                       fsin fp (rnd fp (dLon / 2))) *
                    fsin fp (rnd fp (dLon / 2))));
          c = (case js_sqrt fp a of
                 NaN \<Rightarrow> NaN
               | Finite s \<Rightarrow>
                   (case js_sqrt fp (rnd fp (1 - a)) of
                      NaN \<Rightarrow> NaN
                    | Finite t \<Rightarrow> Finite (rnd fp (2 * fatan2 fp s t))))
      in case c of NaN \<Rightarrow> NaN | Finite c \<Rightarrow> Finite (rnd fp (R * c)))"

definition calculateBearing :: "real \<Rightarrow> real \<Rightarrow> real \<Rightarrow> real \<Rightarrow> real" where
  "calculateBearing lat1 lon1 lat2 lon2 =
     (let dLon = ((lon2 - lon1) * pi) / 180;
          lat1Rad = (lat1 * pi) / 180;
          lat2Rad = (lat2 * pi) / 180;
          y = sin dLon * cos lat2Rad;
          x = cos lat1Rad * sin lat2Rad - sin lat1Rad * cos lat2Rad * cos dLon;
          bearing = atan2 y x;
          bearing = (bearing * 180) / pi;
          bearing = js_rem (bearing + 360) 360
      in bearing)"

definition normalizeBearingDifference :: "real \<Rightarrow> real" where
  "normalizeBearingDifference bearing =
     (if bearing > 180 then bearing - 360
      else if bearing < - 180 then bearing + 360
      else bearing)"

subsection \<open>Nearest path node\<close>

text \<open>
  The distance from a location to a path node, as both \<open>findNearestNode\<close> and
  \<open>updateNavigationState\<close> compute it.
\<close>

definition distanceTo :: "FloatArith \<Rightarrow> GPSLocation \<Rightarrow> PathNode \<Rightarrow> number" where
  "distanceTo fp location node =
     calculateDistance fp (latitude location) (longitude location)
       (latitude (coordinates node)) (longitude (coordinates node))"

definition bearingTo :: "GPSLocation \<Rightarrow> PathNode \<Rightarrow> real" where
  "bearingTo location node =
     calculateBearing (latitude location) (longitude location)
       (latitude (coordinates node)) (longitude (coordinates node))"

text \<open>
  The \<open>for\<close> loop of \<open>findNearestNode\<close>, from the value \<open>i\<close> of its counter, with the
  two variables it updates.
\<close>

function findNearestNode_loop ::
  "FloatArith \<Rightarrow> GPSLocation \<Rightarrow> PathNode list \<Rightarrow> nat \<Rightarrow> number \<Rightarrow> nat \<Rightarrow> nat" where
  "findNearestNode_loop fp location pathNodes i minDistance nearestIndex =
     (if i < length pathNodes then
        (let d = distanceTo fp location (pathNodes ! i)
         in if js_lt d minDistance
            then findNearestNode_loop fp location pathNodes (i + 1) d i
            else findNearestNode_loop fp location pathNodes (i + 1) minDistance nearestIndex)
      else nearestIndex)"
  by pat_completeness auto
termination
  by (relation "measure (\<lambda>(fp, location, pathNodes, i, minDistance, nearestIndex).
        length pathNodes - i)") auto

declare findNearestNode_loop.simps [simp del]

definition findNearestNode :: "FloatArith \<Rightarrow> GPSLocation \<Rightarrow> PathNode list \<Rightarrow> nat option" where
  "findNearestNode fp location pathNodes =
     (if length pathNodes = 0 then None
      else Some (findNearestNode_loop fp location pathNodes 1
                   (distanceTo fp location (pathNodes ! 0)) 0))"

subsection \<open>Instruction text\<close>

definition ARRIVAL_THRESHOLD :: real where
  "ARRIVAL_THRESHOLD = 15"

text \<open>The \<open>if\<close> chain that gives \<open>instruction\<close> its first value.\<close>

definition bearingPhrase :: "real \<Rightarrow> string" where
  "bearingPhrase relBearing =
     (if relBearing < - 45 then ''Turn left''
      else if relBearing > 45 then ''Turn right''
      else if relBearing < - 15 then ''Slight left''
      else if relBearing > 15 then ''Slight right''
      else ''Continue straight'')"

text \<open>
  \<open>nextNode?.instructionText\<close> is a truth test: it fails on \<open>null\<close>, on a missing field
  and on the empty string. \<open>nextNode?.landmark\<close> fails on \<open>null\<close> and on a missing field;
  an object is always true. The comparisons \<open>distance > 100\<close> and \<open>distance > 0\<close> are both
  false on \<open>NaN\<close>.
\<close>

definition generateMovementInstruction :: "real \<Rightarrow> number \<Rightarrow> PathNode option \<Rightarrow> string" where
  "generateMovementInstruction relBearing meters nextNode =
     (if js_lt meters (Finite ARRIVAL_THRESHOLD) then ''You have reached the waypoint''
      else
        (let instruction = bearingPhrase relBearing;
             instruction =
               (case nextNode of
                  None \<Rightarrow> instruction
                | Some n \<Rightarrow>
                    (case instructionText n of
                       None \<Rightarrow> instruction
                     | Some t \<Rightarrow> if t = [] then instruction else t));
             instruction =
               (case nextNode of
                  None \<Rightarrow> instruction
                | Some n \<Rightarrow>
                    (case landmark n of
                       None \<Rightarrow> instruction
                     | Some l \<Rightarrow> instruction @ '' toward '' @ name l));
             instruction =
               (case nextNode of
                  None \<Rightarrow> instruction
                | Some n \<Rightarrow>
                    (case floor_level n of
                       None \<Rightarrow> instruction
                     | Some f \<Rightarrow>
                         if isIndoor n then instruction @ '' (Floor '' @ show_int f @ '')''
                         else instruction));
             instruction =
               (case meters of
                  NaN \<Rightarrow> instruction
                | Finite m \<Rightarrow>
                    if m > 100 then instruction @ '' in '' @ show_int (round (m / 10) * 10) @ ''m''
                    else if m > 0 then instruction @ '' in '' @ show_int (round m) @ ''m''
                    else instruction)
         in instruction))"

subsection \<open>The hook\<close>

text \<open>
  \<open>updateNavigationState\<close> is created by \<open>useCallback\<close> with the dependencies
  \<open>[pathNodes, userHeading]\<close>: it reads the \<open>pathNodes\<close> and the \<open>userHeading\<close> of the
  render that created it. Both are arguments here (\<open>capturedHeading\<close> for the second); the
  last argument holds the cells with the updates queued so far. Reading
  \<open>pathNodes[nextIndex]\<close> out of range gives \<open>undefined\<close>, and \<open>nextNode.coordinates\<close>
  then throws.
\<close>

definition updateNavigationState ::
  "FloatArith \<Rightarrow> PathNode list \<Rightarrow> real option \<Rightarrow> GPSLocation \<Rightarrow> EngineState
     \<Rightarrow> error + EngineState" where
  "updateNavigationState fp pathNodes capturedHeading location st =
     (if length pathNodes = 0 then Inr (st\<lparr>movementInstruction := ''No path nodes available''\<rparr>)
      else
        (let nearest = findNearestNode fp location pathNodes;
             st = st\<lparr>nearestNodeIndex := nearest\<rparr>
         in case nearest of
              None \<Rightarrow> Inr st
            | Some nearest \<Rightarrow>
                (let nextIndex =
                       (if int nearest < int (length pathNodes) - 1 then nearest + 1 else nearest)
                 in if nextIndex < length pathNodes then
                      (let nextNode = pathNodes ! nextIndex;
                           distToNext = distanceTo fp location nextNode;
                           st = st\<lparr>distance := distToNext\<rparr>;
                           bearingToNext = bearingTo location nextNode;
                           relBearing =
                             (case capturedHeading of
                                None \<Rightarrow> 0
                              | Some h \<Rightarrow> normalizeBearingDifference (bearingToNext - h));
                           st = st\<lparr>relativeBearing := relBearing\<rparr>;
                           arrivedAtNext = js_lt distToNext (Finite ARRIVAL_THRESHOLD);
                           st = st\<lparr>arrivednextNode := arrivedAtNext\<rparr>;
                           arrivedAtDest =
                             (int nextIndex = int (length pathNodes) - 1 \<and> arrivedAtNext);
                           st = st\<lparr>arriveAtDestination := arrivedAtDest\<rparr>;
                           instruction =
                             generateMovementInstruction relBearing distToNext (Some nextNode)
                       in Inr (st\<lparr>movementInstruction := instruction\<rparr>))
                    else Inl TypeError)))"

text \<open>
  \<open>locationOf\<close> is the object literal that \<open>handleLocationUpdate\<close> builds from the
  position. \<open>handleLocationUpdate\<close> runs in the render whose cells are \<open>st\<close>. The test
  \<open>heading !== undefined && heading >= 0\<close> fails on a missing heading, on \<open>NaN\<close> and on a
  negative number; \<open>null\<close> passes it, because \<open>null >= 0\<close> compares 0 with 0, and
  \<open>setUserHeading(null)\<close> then stores \<open>null\<close>. The call \<open>setUserHeading\<close> queues the new
  heading; \<open>updateNavigationState\<close> is the callback of the same render, so the heading it
  reads is \<open>userHeading st\<close>.
\<close>

definition locationOf :: "Position \<Rightarrow> GPSLocation" where
  "locationOf position =
     \<lparr>latitude = latitude (coords position),
      longitude = longitude (coords position),
      accuracy = coords_accuracy (coords position),
      timestamp = position_timestamp position\<rparr>"

definition handleLocationUpdate ::
  "FloatArith \<Rightarrow> PathNode list \<Rightarrow> EngineState \<Rightarrow> Position \<Rightarrow> error + EngineState" where
  "handleLocationUpdate fp pathNodes st position =
     (let location = locationOf position;
          st1 = st\<lparr>currentLocation := Some location\<rparr>;
          st2 =
            (case heading (coords position) of
               Undefined \<Rightarrow> st1
             | Null \<Rightarrow> st1\<lparr>userHeading := None\<rparr>
             | Value NaN \<Rightarrow> st1
             | Value (Finite h) \<Rightarrow> if h \<ge> 0 then st1\<lparr>userHeading := Some h\<rparr> else st1)
      in updateNavigationState fp pathNodes (userHeading st) location st2)"

definition handleLocationError :: "EngineState \<Rightarrow> GeoError \<Rightarrow> EngineState" where
  "handleLocationError st err = st\<lparr>movementInstruction := ''Location error: '' @ message err\<rparr>"

text \<open>The cells of the first render; no effect has run yet.\<close>

definition initialState :: EngineState where
  "initialState =
     \<lparr>currentLocation = None, nearestNodeIndex = None, distance = Finite 0, relativeBearing = 0,
      userHeading = None, movementInstruction = ''Initializing navigation...'',
      arrivednextNode = False, arriveAtDestination = False, watchIdRef = None,
      effectDeps = None, effectCleanup = False\<rparr>"

text \<open>The object that a render of the hook returns.\<close>

definition useNavigationEngine :: "PathNode list \<Rightarrow> EngineState \<Rightarrow> NavigationOutput" where
  "useNavigationEngine pathNodes st =
     \<lparr>currentLocation = currentLocation st,
      nearestNodeIndex = nearestNodeIndex st,
      distance = distance st,
      relativeBearing = relativeBearing st,
      userHeading = userHeading st,
      movementInstruction = movementInstruction st,
      arrivednextNode = arrivednextNode st,
      arriveAtDestination = arriveAtDestination st,
      nextNodeIndex =
        (case nearestNodeIndex st of
           None \<Rightarrow> None
         | Some n \<Rightarrow> if int n < int (length pathNodes) - 1 then Some (n + 1) else Some n)\<rparr>"

subsection \<open>The subscription\<close>

text \<open>
  \<open>Geolocation.watchPosition\<close> registers a callback under a new identifier and returns
  the identifier; \<open>Geolocation.clearWatch\<close> removes the registration.
\<close>

definition watchPosition :: "Callback \<Rightarrow> Geolocation \<Rightarrow> nat \<times> Geolocation" where
  "watchPosition cb geo =
     (nextWatchId geo,
      geo\<lparr>watches := (watches geo)(nextWatchId geo \<mapsto> cb), nextWatchId := nextWatchId geo + 1\<rparr>)"

definition clearWatch :: "nat \<Rightarrow> Geolocation \<Rightarrow> Geolocation" where
  "clearWatch w geo = geo\<lparr>watches := (watches geo)(w := None)\<rparr>"

text \<open>
  The body of the effect: without tracking it clears a watch that is still held and
  returns no cleanup; otherwise it registers the \<open>handleLocationUpdate\<close> of this render and
  returns the cleanup below.
\<close>

definition trackingEffect :: "Props \<Rightarrow> EngineState \<Rightarrow> Geolocation \<Rightarrow> EngineState \<times> Geolocation" where
  "trackingEffect props st geo =
     (if \<not> p_enabled props \<or> length (p_pathNodes props) = 0 then
        (case watchIdRef st of
           None \<Rightarrow> (st\<lparr>effectCleanup := False\<rparr>, geo)
         | Some w \<Rightarrow> (st\<lparr>watchIdRef := None, effectCleanup := False\<rparr>, clearWatch w geo))
      else
        (let (w, geo') =
               watchPosition
                 \<lparr>cb_pathNodes = p_pathNodes props, cb_userHeading = userHeading st\<rparr> geo
         in (st\<lparr>watchIdRef := Some w, effectCleanup := True\<rparr>, geo')))"

definition trackingCleanup :: "EngineState \<Rightarrow> Geolocation \<Rightarrow> EngineState \<times> Geolocation" where
  "trackingCleanup st geo =
     (case watchIdRef st of
        None \<Rightarrow> (st, geo)
      | Some w \<Rightarrow> (st\<lparr>watchIdRef := None\<rparr>, clearWatch w geo))"

definition effectDepsOf :: "Props \<Rightarrow> EngineState \<Rightarrow> EffectDeps" where
  "effectDepsOf props st =
     \<lparr>dep_enabled = p_enabled props,
      dep_length = length (p_pathNodes props),
      dep_updateInterval = p_updateInterval props,
      dep_handleLocationUpdate = (p_pathNodesRef props, userHeading st)\<rparr>"

text \<open>
  What React does with the effect after a render with the arguments \<open>props\<close> and the cells
  \<open>st\<close>: nothing when the dependencies are those of the previous render; otherwise the
  cleanup of the last run, if it returned one, and then the body.
\<close>

definition commitEffects :: "Props \<Rightarrow> EngineState \<Rightarrow> Geolocation \<Rightarrow> EngineState \<times> Geolocation" where
  "commitEffects props st geo =
     (if effectDeps st = Some (effectDepsOf props st) then (st, geo)
      else
        (let (st1, geo1) = (if effectCleanup st then trackingCleanup st geo else (st, geo));
             (st2, geo2) = trackingEffect props st1 geo1
         in (st2\<lparr>effectDeps := Some (effectDepsOf props st)\<rparr>, geo2)))"

subsection \<open>The composition policy of the specification\<close>

text \<open>
  The three suffixes, as the specification words them: the landmark suffix when the target
  carries a landmark, the floor suffix when the target is flagged indoor and has a floor
  value, and the distance suffix with its three ranges.
\<close>

definition landmarkSuffix :: "PathNode option \<Rightarrow> string" where
  "landmarkSuffix nextNode =
     (case nextNode of
        None \<Rightarrow> []
      | Some n \<Rightarrow> (case landmark n of None \<Rightarrow> [] | Some l \<Rightarrow> '' toward '' @ name l))"

definition floorSuffix :: "PathNode option \<Rightarrow> string" where
  "floorSuffix nextNode =
     (case nextNode of
        None \<Rightarrow> []
      | Some n \<Rightarrow>
          (case floor_level n of
             None \<Rightarrow> []
           | Some f \<Rightarrow> if isIndoor n then '' (Floor '' @ show_int f @ '')'' else []))"

definition distanceSuffix :: "number \<Rightarrow> string" where
  "distanceSuffix meters =
     (case meters of
        NaN \<Rightarrow> []
      | Finite m \<Rightarrow>
          if m > 100 then '' in '' @ show_int (round (m / 10) * 10) @ ''m''
          else if 0 < m \<and> m \<le> 100 then '' in '' @ show_int (round m) @ ''m''
          else [])"

text \<open>
  The policy as the specification states it: an override that is present replaces the base
  phrase.
\<close>

definition statedPolicy :: "real \<Rightarrow> number \<Rightarrow> PathNode option \<Rightarrow> string" where
  "statedPolicy relBearing meters nextNode =
     (if js_lt meters (Finite 15) then ''You have reached the waypoint''
      else
        (case nextNode of
           None \<Rightarrow> bearingPhrase relBearing
         | Some n \<Rightarrow>
             (case instructionText n of None \<Rightarrow> bearingPhrase relBearing | Some t \<Rightarrow> t))
        @ landmarkSuffix nextNode @ floorSuffix nextNode @ distanceSuffix meters)"

text \<open>The same policy with an override that replaces the base phrase only when it is not empty.\<close>

definition nonEmptyOverridePolicy :: "real \<Rightarrow> number \<Rightarrow> PathNode option \<Rightarrow> string" where
  "nonEmptyOverridePolicy relBearing meters nextNode =
     (if js_lt meters (Finite 15) then ''You have reached the waypoint''
      else
        (case nextNode of
           None \<Rightarrow> bearingPhrase relBearing
         | Some n \<Rightarrow>
             (case instructionText n of
                None \<Rightarrow> bearingPhrase relBearing
              | Some t \<Rightarrow> if t = [] then bearingPhrase relBearing else t))
        @ landmarkSuffix nextNode @ floorSuffix nextNode @ distanceSuffix meters)"

subsection \<open>Sample inputs\<close>

text \<open>
  A path node as \<open>NavigationScreen\<close> builds it from a coordinate (type \<open>waypoint\<close>, empty
  description, no instruction text, no landmark), and a fix at a coordinate with a given
  heading.
\<close>

definition plainNode :: "real \<Rightarrow> real \<Rightarrow> PathNode" where
  "plainNode lat lon =
     \<lparr>node_id = ''node'', routeId = ''route'',
      coordinates = \<lparr>latitude = lat, longitude = lon\<rparr>,
      node_order = 0, node_type = waypoint, node_description = [],
      node_heading = None, instructionText = None, landmark = None,
      floor_level = None, isIndoor = False\<rparr>"

definition fixAt :: "real \<Rightarrow> real \<Rightarrow> number property \<Rightarrow> Position" where
  "fixAt lat lon h =
     \<lparr>coords = \<lparr>latitude = lat, longitude = lon, coords_accuracy = 5, heading = h\<rparr>,
      position_timestamp = 0\<rparr>"

text \<open>An indoor path node with an instruction text, a landmark and a floor.\<close>

definition stairsNode :: PathNode where
  "stairsNode =
     (plainNode 0 0)\<lparr>instructionText := Some ''Take the stairs'',
                       landmark := Some \<lparr>name = ''Library'', landmark_description = ''Main library''\<rparr>,
                       floor_level := Some 2,
                       isIndoor := True\<rparr>"

text \<open>
  An arithmetic whose sine is too large by one thousandth and which is exact otherwise. With
  it the haversine term of two opposite points on the equator exceeds 1, as it does in
  double precision for some nearly opposite points.
\<close>

definition sineErrorArith :: FloatArith where
  "sineErrorArith = exactArith\<lparr>fsin := (\<lambda>x. sin x + 1 / 1000)\<rparr>"

text \<open>
  The hook enabled on a path of one node, the location service before any registration,
  and the cells and the service after the first render has run its effect.
\<close>

definition sampleProps :: Props where
  "sampleProps =
     \<lparr>p_pathNodes = [plainNode 0 0], p_pathNodesRef = 0, p_enabled = True,
      p_updateInterval = 2000\<rparr>"

definition idleGeolocation :: Geolocation where
  "idleGeolocation = \<lparr>watches = Map.empty, nextWatchId = 0\<rparr>"

definition mountedState :: EngineState where
  "mountedState = fst (commitEffects sampleProps initialState idleGeolocation)"

definition mountedGeolocation :: Geolocation where
  "mountedGeolocation = snd (commitEffects sampleProps initialState idleGeolocation)"

section \<open>Properties\<close>

subsection \<open>Bearing normalisation\<close>

text \<open>
  C9, as amended. The result of \<open>normalizeBearingDifference\<close> lies in \<open>[-180, 180]\<close>
  exactly for the inputs in \<open>[-540, 540]\<close>, so in particular for every input in
  \<open>[-360, 360]\<close>; whenever the result lies in \<open>[-180, 180]\<close>, normalising it again changes
  nothing; and the function makes at most one correction of 360 degrees.
\<close>

theorem normalizeBearingDifference_range:
  "((- 180 \<le> normalizeBearingDifference x \<and> normalizeBearingDifference x \<le> 180)
      = (- 540 \<le> x \<and> x \<le> 540))
   \<and> (- 360 \<le> x \<and> x \<le> 360 \<longrightarrow>
        - 180 \<le> normalizeBearingDifference x \<and> normalizeBearingDifference x \<le> 180)
   \<and> (- 180 \<le> normalizeBearingDifference x \<and> normalizeBearingDifference x \<le> 180 \<longrightarrow>
        normalizeBearingDifference (normalizeBearingDifference x) = normalizeBearingDifference x)
   \<and> (normalizeBearingDifference x = x \<or> normalizeBearingDifference x = x - 360
        \<or> normalizeBearingDifference x = x + 360)"
  by (auto simp: normalizeBearingDifference_def)

theorem normalizeBearingDifference_range_witness:
  "- 360 \<le> (270::real) \<and> (270::real) \<le> 360
   \<and> - 180 \<le> normalizeBearingDifference 270 \<and> normalizeBearingDifference 270 \<le> 180
   \<and> normalizeBearingDifference (normalizeBearingDifference 270) = normalizeBearingDifference 270"
  using normalizeBearingDifference_range [of 270] by simp

text \<open>
  The claim C9 as stated fails: the input 541 is a real number, and its result 181 is not
  in \<open>[-180, 180]\<close>.
\<close>

theorem normalizeBearingDifference_out_of_range:
  "normalizeBearingDifference 541 = 181 \<and> \<not> normalizeBearingDifference 541 \<le> 180"
  by (simp add: normalizeBearingDifference_def)

subsection \<open>Base phrase\<close>

text \<open>
  C4. The base phrase is "Turn left" exactly below -45, "Turn right" exactly above 45,
  "Slight left" exactly on \<open>[-45, -15)\<close>, "Slight right" exactly on \<open>(15, 45]\<close> and
  "Continue straight" exactly on \<open>[-15, 15]\<close>; at 45 it is "Slight right" and at -45 it is
  "Slight left". For a distance of at least 15 meters and a target without a non-empty
  override, the generated instruction starts with this phrase.
\<close>

theorem bearingPhrase_thresholds:
  "(bearingPhrase b = ''Turn left'') = (b < - 45)
   \<and> (bearingPhrase b = ''Turn right'') = (45 < b)
   \<and> (bearingPhrase b = ''Slight left'') = (- 45 \<le> b \<and> b < - 15)
   \<and> (bearingPhrase b = ''Slight right'') = (15 < b \<and> b \<le> 45)
   \<and> (bearingPhrase b = ''Continue straight'') = (- 15 \<le> b \<and> b \<le> 15)
   \<and> bearingPhrase 45 = ''Slight right''
   \<and> bearingPhrase (- 45) = ''Slight left''
   \<and> (15 \<le> d \<and> (case nextNode of None \<Rightarrow> True
                    | Some n \<Rightarrow> instructionText n = None \<or> instructionText n = Some [])
        \<longrightarrow> (\<exists>rest. generateMovementInstruction b (Finite d) nextNode = bearingPhrase b @ rest))"
proof -
  have phrases: "(bearingPhrase b = ''Turn left'') = (b < - 45)"
    "(bearingPhrase b = ''Turn right'') = (45 < b)"
    "(bearingPhrase b = ''Slight left'') = (- 45 \<le> b \<and> b < - 15)"
    "(bearingPhrase b = ''Slight right'') = (15 < b \<and> b \<le> 45)"
    "(bearingPhrase b = ''Continue straight'') = (- 15 \<le> b \<and> b \<le> 15)"
    by (auto simp: bearingPhrase_def)
  have bounds: "bearingPhrase 45 = ''Slight right''" "bearingPhrase (- 45) = ''Slight left''"
    by (simp_all add: bearingPhrase_def)
  have "\<exists>rest. generateMovementInstruction b (Finite d) nextNode = bearingPhrase b @ rest"
    if "15 \<le> d" and "case nextNode of None \<Rightarrow> True
        | Some n \<Rightarrow> instructionText n = None \<or> instructionText n = Some []"
    using that
    by (auto simp: generateMovementInstruction_def ARRIVAL_THRESHOLD_def Let_def
        split: option.splits)
  with phrases bounds show ?thesis by blast
qed

theorem bearingPhrase_thresholds_witness:
  "(15::real) \<le> 20
   \<and> (\<exists>rest. generateMovementInstruction 45 (Finite 20) (Some (plainNode 0 0))
         = ''Slight right'' @ rest)"
proof -
  note t = bearingPhrase_thresholds [of 45 20 "Some (plainNode 0 0)", unfolded option.case]
  have d: "(15::real) \<le> 20" by simp
  have i: "instructionText (plainNode 0 0) = None" by (simp add: plainNode_def)
  from t have phrase: "bearingPhrase 45 = ''Slight right''" by blast
  from t d i
  have "\<exists>rest. generateMovementInstruction 45 (Finite 20) (Some (plainNode 0 0))
      = bearingPhrase 45 @ rest"
    by blast
  with d show ?thesis
    unfolding phrase by blast
qed

subsection \<open>Empty override\<close>

text \<open>
  C10. A target whose instruction text is the empty string gives the same instruction as
  the same target without instruction text, for every distance: below 15 meters the
  arrival message, and otherwise the base phrase followed by the landmark, floor and
  distance suffixes (no distance suffix when the distance is \<open>NaN\<close>).
\<close>

theorem empty_override_keeps_base_phrase:
  "generateMovementInstruction b meters (Some (n\<lparr>instructionText := Some []\<rparr>))
     = generateMovementInstruction b meters (Some (n\<lparr>instructionText := None\<rparr>))
   \<and> generateMovementInstruction b (Finite d) (Some (n\<lparr>instructionText := Some []\<rparr>))
     = (if d < 15 then ''You have reached the waypoint''
        else bearingPhrase b
          @ (case landmark n of None \<Rightarrow> [] | Some l \<Rightarrow> '' toward '' @ name l)
          @ (case floor_level n of
               None \<Rightarrow> []
             | Some f \<Rightarrow> if isIndoor n then '' (Floor '' @ show_int f @ '')'' else [])
          @ (if d > 100 then '' in '' @ show_int (round (d / 10) * 10) @ ''m''
             else '' in '' @ show_int (round d) @ ''m''))
   \<and> generateMovementInstruction b NaN (Some (n\<lparr>instructionText := Some []\<rparr>))
     = bearingPhrase b
          @ (case landmark n of None \<Rightarrow> [] | Some l \<Rightarrow> '' toward '' @ name l)
          @ (case floor_level n of
               None \<Rightarrow> []
             | Some f \<Rightarrow> if isIndoor n then '' (Floor '' @ show_int f @ '')'' else [])"
  by (simp add: generateMovementInstruction_def ARRIVAL_THRESHOLD_def Let_def
      split: option.splits)

subsection \<open>Nearest path node\<close>

lemma js_lt_irrefl: "\<not> js_lt d d"
  by (cases d) simp_all

lemma js_lt_not_below:
  assumes "js_lt d m" and "\<not> js_lt c m"
  shows "\<not> js_lt c d"
  using assms by (cases d; cases m; cases c) auto

lemma js_lt_farther:
  assumes "js_lt d m" and "\<not> js_lt c m"
  shows "c = NaN \<or> js_lt d c"
  using assms by (cases d; cases m; cases c) auto

text \<open>
  The invariant of the scan: \<open>nearestIndex\<close> is below the counter, \<open>minDistance\<close> is its
  distance, no node before the counter compares below it, and every node before
  \<open>nearestIndex\<close> is at distance \<open>NaN\<close> or compares above it.
\<close>

lemma findNearestNode_loop_inv:
  assumes "nearestIndex < i" and "i \<le> length pathNodes"
    and "minDistance = distanceTo fp location (pathNodes ! nearestIndex)"
    and "\<forall>j<i. \<not> js_lt (distanceTo fp location (pathNodes ! j)) minDistance"
    and "\<forall>j<nearestIndex. distanceTo fp location (pathNodes ! j) = NaN
           \<or> js_lt minDistance (distanceTo fp location (pathNodes ! j))"
  shows "findNearestNode_loop fp location pathNodes i minDistance nearestIndex < length pathNodes
     \<and> (\<forall>j<length pathNodes.
           \<not> js_lt (distanceTo fp location (pathNodes ! j))
               (distanceTo fp location
                  (pathNodes ! findNearestNode_loop fp location pathNodes i minDistance nearestIndex)))
     \<and> (\<forall>j<findNearestNode_loop fp location pathNodes i minDistance nearestIndex.
           distanceTo fp location (pathNodes ! j) = NaN
           \<or> js_lt (distanceTo fp location
                      (pathNodes ! findNearestNode_loop fp location pathNodes i minDistance nearestIndex))
                (distanceTo fp location (pathNodes ! j)))"
  using assms
proof (induction fp location pathNodes i minDistance nearestIndex rule: findNearestNode_loop.induct)
  case (1 fp location pathNodes i minDistance nearestIndex)
  let ?D = "\<lambda>j. distanceTo fp location (pathNodes ! j)"
  show ?case
  proof (cases "i < length pathNodes")
    case False
    then have eq: "findNearestNode_loop fp location pathNodes i minDistance nearestIndex = nearestIndex"
      by (subst findNearestNode_loop.simps) simp
    from False "1.prems" have "i = length pathNodes" by simp
    with "1.prems" show ?thesis
      unfolding eq by simp
  next
    case inrange: True
    show ?thesis
    proof (cases "js_lt (?D i) minDistance")
      case True
      have a: "\<forall>j<i + 1. \<not> js_lt (?D j) (?D i)"
      proof (intro allI impI)
        fix j assume "j < i + 1"
        then consider "j < i" | "j = i" by arith
        then show "\<not> js_lt (?D j) (?D i)"
        proof cases
          case 1
          with "1.prems"(4) have "\<not> js_lt (?D j) minDistance" by blast
          with True show ?thesis by (rule js_lt_not_below)
        next
          case 2
          then show ?thesis by (simp add: js_lt_irrefl)
        qed
      qed
      have b: "\<forall>j<i. ?D j = NaN \<or> js_lt (?D i) (?D j)"
      proof (intro allI impI)
        fix j assume "j < i"
        with "1.prems"(4) have "\<not> js_lt (?D j) minDistance" by blast
        with True show "?D j = NaN \<or> js_lt (?D i) (?D j)" by (rule js_lt_farther)
      qed
      have "i < i + 1" and "i + 1 \<le> length pathNodes" using inrange by simp_all
      have eq: "findNearestNode_loop fp location pathNodes i minDistance nearestIndex
          = findNearestNode_loop fp location pathNodes (i + 1) (?D i) i"
        using inrange True by (subst findNearestNode_loop.simps) (simp add: Let_def)
      from "1.IH"(1) [OF inrange refl True \<open>i < i + 1\<close> \<open>i + 1 \<le> length pathNodes\<close> refl a b]
      show ?thesis
        unfolding eq .
    next
      case False
      have a: "\<forall>j<i + 1. \<not> js_lt (?D j) minDistance"
      proof (intro allI impI)
        fix j assume "j < i + 1"
        then have "j < i \<or> j = i" by arith
        with False "1.prems"(4) show "\<not> js_lt (?D j) minDistance"
          by auto
      qed
      have "nearestIndex < i + 1" and "i + 1 \<le> length pathNodes"
        using inrange "1.prems"(1) by simp_all
      have eq: "findNearestNode_loop fp location pathNodes i minDistance nearestIndex
          = findNearestNode_loop fp location pathNodes (i + 1) minDistance nearestIndex"
        using inrange False by (subst findNearestNode_loop.simps) (simp add: Let_def)
      from "1.IH"(2) [OF inrange refl False \<open>nearestIndex < i + 1\<close> \<open>i + 1 \<le> length pathNodes\<close>
          "1.prems"(3) a "1.prems"(5)]
      show ?thesis
        unfolding eq .
    qed
  qed
qed

text \<open>
  What the scan guarantees for every arithmetic: a valid index, no node that compares below
  the returned one, and before it only nodes at distance \<open>NaN\<close> or nodes that compare above.
\<close>

lemma findNearestNode_Some:
  assumes "pathNodes \<noteq> []"
  shows "\<exists>i. findNearestNode fp location pathNodes = Some i \<and> i < length pathNodes
     \<and> (\<forall>j<length pathNodes.
           \<not> js_lt (distanceTo fp location (pathNodes ! j)) (distanceTo fp location (pathNodes ! i)))
     \<and> (\<forall>j<i. distanceTo fp location (pathNodes ! j) = NaN
           \<or> js_lt (distanceTo fp location (pathNodes ! i)) (distanceTo fp location (pathNodes ! j)))"
proof -
  let ?d0 = "distanceTo fp location (pathNodes ! 0)"
  from assms have len: "1 \<le> length pathNodes" by (cases pathNodes) simp_all
  have a: "\<forall>j<1. \<not> js_lt (distanceTo fp location (pathNodes ! j)) ?d0"
    by (simp add: js_lt_irrefl)
  have b: "\<forall>j<0::nat. distanceTo fp location (pathNodes ! j) = NaN
      \<or> js_lt ?d0 (distanceTo fp location (pathNodes ! j))" by simp
  from findNearestNode_loop_inv [of 0 1 pathNodes ?d0 fp location, OF _ len refl a b] assms
  show ?thesis by (simp add: findNearestNode_def)
qed

text \<open>
  When no distance is \<open>NaN\<close>, the returned node is at minimal distance, and every node
  at the same distance has an index at least as large.
\<close>

lemma findNearestNode_minimal_without_NaN:
  assumes "pathNodes \<noteq> []"
    and "\<forall>j<length pathNodes. distanceTo fp location (pathNodes ! j) \<noteq> NaN"
  shows "\<exists>i d. findNearestNode fp location pathNodes = Some i \<and> i < length pathNodes
     \<and> distanceTo fp location (pathNodes ! i) = Finite d
     \<and> (\<forall>j<length pathNodes. \<exists>e. distanceTo fp location (pathNodes ! j) = Finite e
           \<and> d \<le> e \<and> (e = d \<longrightarrow> i \<le> j))"
proof -
  from findNearestNode_Some [OF assms(1), of fp location] obtain i where
    i: "findNearestNode fp location pathNodes = Some i" "i < length pathNodes"
      "\<forall>j<length pathNodes.
         \<not> js_lt (distanceTo fp location (pathNodes ! j)) (distanceTo fp location (pathNodes ! i))"
      "\<forall>j<i. distanceTo fp location (pathNodes ! j) = NaN
         \<or> js_lt (distanceTo fp location (pathNodes ! i)) (distanceTo fp location (pathNodes ! j))"
    by blast
  from assms(2) i(2) obtain d where d: "distanceTo fp location (pathNodes ! i) = Finite d"
    by (cases "distanceTo fp location (pathNodes ! i)") auto
  have "\<exists>e. distanceTo fp location (pathNodes ! j) = Finite e \<and> d \<le> e \<and> (e = d \<longrightarrow> i \<le> j)"
    if j: "j < length pathNodes" for j
  proof -
    from assms(2) j obtain e where e: "distanceTo fp location (pathNodes ! j) = Finite e"
      by (cases "distanceTo fp location (pathNodes ! j)") auto
    from i(3) j have "d \<le> e" by (auto simp: d e)
    moreover have "i \<le> j" if "e = d"
    proof (rule ccontr)
      assume "\<not> i \<le> j"
      then have "j < i" by simp
      with i(4) that show False by (auto simp: d e)
    qed
    ultimately show ?thesis using e by blast
  qed
  with i(1,2) d show ?thesis by blast
qed

lemma findNearestNode_loop_NaN:
  "findNearestNode_loop fp location pathNodes i NaN nearestIndex = nearestIndex"
proof (induction "length pathNodes - i" arbitrary: i)
  case 0
  then show ?case by (subst findNearestNode_loop.simps) simp
next
  case (Suc k)
  then have "i < length pathNodes" and "k = length pathNodes - (i + 1)" by simp_all
  with Suc.hyps(1) [of "i + 1"] show ?case
    by (subst findNearestNode_loop.simps) (simp add: Let_def)
qed

text \<open>
  C6 fails on the code when the distance to the first node is \<open>NaN\<close>: no comparison with
  \<open>NaN\<close> is true, so the running minimum is never replaced and the scan returns index 0,
  whatever the distances to the other nodes.
\<close>

theorem findNearestNode_keeps_NaN_minimum:
  assumes "pathNodes \<noteq> []" and "distanceTo fp location (pathNodes ! 0) = NaN"
  shows "findNearestNode fp location pathNodes = Some 0"
  using assms by (simp add: findNearestNode_def findNearestNode_loop_NaN)

theorem findNearestNode_keeps_NaN_minimum_witness:
  "[plainNode 0 180, plainNode 0 0] \<noteq> []
   \<and> distanceTo sineErrorArith (locationOf (fixAt 0 0 Undefined))
        ([plainNode 0 180, plainNode 0 0] ! 0) = NaN
   \<and> (\<exists>d. distanceTo sineErrorArith (locationOf (fixAt 0 0 Undefined))
              ([plainNode 0 180, plainNode 0 0] ! 1) = Finite d)
   \<and> findNearestNode sineErrorArith (locationOf (fixAt 0 0 Undefined))
        [plainNode 0 180, plainNode 0 0] = Some 0"
proof -
  let ?loc = "locationOf (fixAt 0 0 Undefined)"
  let ?nodes = "[plainNode 0 180, plainNode 0 0]"
  have ne: "?nodes \<noteq> []" by simp
  have "calculateDistance sineErrorArith 0 0 0 180 = NaN"
    by (simp add: calculateDistance_def sineErrorArith_def exactArith_def Let_def js_sqrt_def)
  then have first: "distanceTo sineErrorArith ?loc (?nodes ! 0) = NaN"
    by (simp add: distanceTo_def locationOf_def fixAt_def plainNode_def)
  have "\<exists>d. calculateDistance sineErrorArith 0 0 0 0 = Finite d"
    by (simp add: calculateDistance_def sineErrorArith_def exactArith_def Let_def js_sqrt_def)
  then have second: "\<exists>d. distanceTo sineErrorArith ?loc (?nodes ! 1) = Finite d"
    by (simp add: distanceTo_def locationOf_def fixAt_def plainNode_def)
  from findNearestNode_keeps_NaN_minimum [OF ne first] ne first second
  show ?thesis by blast
qed

subsection \<open>One location update\<close>

lemma updateNavigationState_nonempty:
  assumes "pathNodes \<noteq> []" and "findNearestNode fp location pathNodes = Some nearest"
    and "nextIndex = min (nearest + 1) (length pathNodes - 1)"
    and "relBearing = (case capturedHeading of None \<Rightarrow> 0
            | Some h \<Rightarrow> normalizeBearingDifference (bearingTo location (pathNodes ! nextIndex) - h))"
  shows "updateNavigationState fp pathNodes capturedHeading location st =
     Inr (st\<lparr>nearestNodeIndex := Some nearest,
             distance := distanceTo fp location (pathNodes ! nextIndex),
             relativeBearing := relBearing,
             arrivednextNode := js_lt (distanceTo fp location (pathNodes ! nextIndex)) (Finite 15),
             arriveAtDestination :=
               (nextIndex = length pathNodes - 1
                \<and> js_lt (distanceTo fp location (pathNodes ! nextIndex)) (Finite 15)),
             movementInstruction :=
               generateMovementInstruction relBearing
                 (distanceTo fp location (pathNodes ! nextIndex)) (Some (pathNodes ! nextIndex))\<rparr>)"
proof -
  from findNearestNode_Some [OF assms(1), of fp location] assms(2)
  have lt: "nearest < length pathNodes" by auto
  from lt consider (inner) "nearest + 1 < length pathNodes" | (final) "nearest + 1 = length pathNodes"
    by arith
  then show ?thesis
  proof cases
    case inner
    then have ni: "nextIndex = nearest + 1" using assms(3) by simp
    have c: "int nearest < int (length pathNodes) - 1" using inner by simp
    have e: "(int (nearest + 1) = int (length pathNodes) - 1) = (nearest + 1 = length pathNodes - 1)"
      using inner by auto
    show ?thesis
      unfolding updateNavigationState_def Let_def assms(2) assms(4) ni
      using assms(1) inner c e by (simp add: ARRIVAL_THRESHOLD_def)
  next
    case final
    then have ni: "nextIndex = nearest" using assms(3) by simp
    have c: "\<not> int nearest < int (length pathNodes) - 1" using final by simp
    have e: "int (length pathNodes) - 1 = int nearest"
      using final by simp
    have e': "length pathNodes - Suc 0 = nearest"
      using final by simp
    show ?thesis
      unfolding updateNavigationState_def Let_def assms(2) assms(4) ni
      using assms(1) lt c by (simp add: ARRIVAL_THRESHOLD_def e e')
  qed
qed

lemma queued_heading:
  "(case heading (coords position) of
      Undefined \<Rightarrow> st1
    | Null \<Rightarrow> st1\<lparr>userHeading := None\<rparr>
    | Value NaN \<Rightarrow> st1
    | Value (Finite h) \<Rightarrow> if h \<ge> 0 then st1\<lparr>userHeading := Some h\<rparr> else st1)
   = st1\<lparr>userHeading :=
          (case heading (coords position) of
             Undefined \<Rightarrow> userHeading st1
           | Null \<Rightarrow> None
           | Value NaN \<Rightarrow> userHeading st1
           | Value (Finite h) \<Rightarrow> if h \<ge> 0 then Some h else userHeading st1)\<rparr>"
  by (simp split: property.split number.split)

lemma handleLocationUpdate_empty:
  "handleLocationUpdate fp [] st position =
     Inr (st\<lparr>currentLocation := Some (locationOf position),
             userHeading :=
               (case heading (coords position) of
                  Undefined \<Rightarrow> userHeading st
                | Null \<Rightarrow> None
                | Value NaN \<Rightarrow> userHeading st
                | Value (Finite h) \<Rightarrow> if h \<ge> 0 then Some h else userHeading st),
             movementInstruction := ''No path nodes available''\<rparr>)"
  by (simp add: handleLocationUpdate_def updateNavigationState_def Let_def
      split: property.split number.split)

lemma handleLocationUpdate_nonempty:
  assumes "pathNodes \<noteq> []" and "findNearestNode fp (locationOf position) pathNodes = Some nearest"
    and "nextIndex = min (nearest + 1) (length pathNodes - 1)"
    and "relBearing = (case userHeading st of None \<Rightarrow> 0
            | Some h \<Rightarrow> normalizeBearingDifference
                (bearingTo (locationOf position) (pathNodes ! nextIndex) - h))"
  shows "handleLocationUpdate fp pathNodes st position =
     Inr (st\<lparr>currentLocation := Some (locationOf position),
             userHeading :=
               (case heading (coords position) of
                  Undefined \<Rightarrow> userHeading st
                | Null \<Rightarrow> None
                | Value NaN \<Rightarrow> userHeading st
                | Value (Finite h) \<Rightarrow> if h \<ge> 0 then Some h else userHeading st),
             nearestNodeIndex := Some nearest,
             distance := distanceTo fp (locationOf position) (pathNodes ! nextIndex),
             relativeBearing := relBearing,
             arrivednextNode :=
               js_lt (distanceTo fp (locationOf position) (pathNodes ! nextIndex)) (Finite 15),
             arriveAtDestination :=
               (nextIndex = length pathNodes - 1
                \<and> js_lt (distanceTo fp (locationOf position) (pathNodes ! nextIndex)) (Finite 15)),
             movementInstruction :=
               generateMovementInstruction relBearing
                 (distanceTo fp (locationOf position) (pathNodes ! nextIndex))
                 (Some (pathNodes ! nextIndex))\<rparr>)"
  unfolding handleLocationUpdate_def Let_def queued_heading
  by (simp add: updateNavigationState_nonempty [OF assms(1) assms(2) assms(3) assms(4)]
        split: property.split number.split)

lemma next_index_facts:
  assumes "pathNodes \<noteq> []"
  shows "\<exists>nearest nextIndex.
     findNearestNode fp location pathNodes = Some nearest
     \<and> nextIndex = min (nearest + 1) (length pathNodes - 1)
     \<and> nextIndex < length pathNodes
     \<and> (if int nearest < int (length pathNodes) - 1 then Some (nearest + 1) else Some nearest)
         = Some nextIndex
     \<and> nextIndex = (if nearest = length pathNodes - 1 then length pathNodes - 1 else nearest + 1)"
proof -
  from findNearestNode_Some [OF assms, of fp location] obtain nearest where
    nearest: "findNearestNode fp location pathNodes = Some nearest" "nearest < length pathNodes"
    by blast
  define nextIndex where "nextIndex = min (nearest + 1) (length pathNodes - 1)"
  have "nextIndex = (if nearest = length pathNodes - 1 then length pathNodes - 1 else nearest + 1)"
    using nearest(2) by (auto simp: nextIndex_def min_def)
  moreover have "nextIndex < length pathNodes"
    using nearest(2) unfolding nextIndex_def by arith
  moreover have "(if int nearest < int (length pathNodes) - 1 then Some (nearest + 1) else Some nearest)
      = Some nextIndex"
    using nearest(2) by (auto simp: nextIndex_def min_def)
  ultimately show ?thesis
    using nearest(1) nextIndex_def by blast
qed

text \<open>
  C8 fails on the code. After a fix the stored heading is the heading of the fix when that
  is a number and not negative, and the heading stored before when the fix has no heading
  property, a negative heading or \<open>NaN\<close>; but a fix whose heading is \<open>null\<close> passes the test
  of \<open>handleLocationUpdate\<close> and erases the stored heading. On the path of one node, the
  fix with heading 90 publishes the heading 90, and the next fix, with heading \<open>null\<close>,
  publishes no heading.
\<close>

theorem null_heading_erases_stored_heading:
  "(\<exists>st'. handleLocationUpdate fp pathNodes st position = Inr st'
      \<and> userHeading st' =
          (case heading (coords position) of
             Undefined \<Rightarrow> userHeading st
           | Null \<Rightarrow> None
           | Value NaN \<Rightarrow> userHeading st
           | Value (Finite h) \<Rightarrow> if 0 \<le> h then Some h else userHeading st)
      \<and> userHeading (useNavigationEngine pathNodes st') = userHeading st')
   \<and> (\<exists>st1 st2.
         handleLocationUpdate fp [plainNode 0 0] initialState (fixAt 0 0 (Value (Finite 90)))
           = Inr st1
         \<and> userHeading (useNavigationEngine [plainNode 0 0] st1) = Some 90
         \<and> handleLocationUpdate fp [plainNode 0 0] st1 (fixAt 0 0 Null) = Inr st2
         \<and> userHeading (useNavigationEngine [plainNode 0 0] st2) = None)"
proof -
  have general: "\<exists>st'. handleLocationUpdate fp pathNodes st position = Inr st'
      \<and> userHeading st' =
          (case heading (coords position) of
             Undefined \<Rightarrow> userHeading st
           | Null \<Rightarrow> None
           | Value NaN \<Rightarrow> userHeading st
           | Value (Finite h) \<Rightarrow> if 0 \<le> h then Some h else userHeading st)
      \<and> userHeading (useNavigationEngine pathNodes st') = userHeading st'"
    for pathNodes st position
  proof (cases "pathNodes = []")
    case True
    then show ?thesis by (simp add: handleLocationUpdate_empty useNavigationEngine_def)
  next
    case False
    from findNearestNode_Some [OF False, of fp "locationOf position"] obtain nearest where
      "findNearestNode fp (locationOf position) pathNodes = Some nearest" by blast
    from handleLocationUpdate_nonempty [OF False this refl refl, of st]
    show ?thesis by (simp add: useNavigationEngine_def)
  qed
  from general [of "[plainNode 0 0]" initialState "fixAt 0 0 (Value (Finite 90))"]
  obtain st1 where
    st1: "handleLocationUpdate fp [plainNode 0 0] initialState (fixAt 0 0 (Value (Finite 90)))
        = Inr st1"
      "userHeading (useNavigationEngine [plainNode 0 0] st1) = Some 90"
    by (auto simp: fixAt_def)
  from general [of "[plainNode 0 0]" st1 "fixAt 0 0 Null"]
  obtain st2 where
    "handleLocationUpdate fp [plainNode 0 0] st1 (fixAt 0 0 Null) = Inr st2"
    "userHeading (useNavigationEngine [plainNode 0 0] st2) = None"
    by (auto simp: fixAt_def)
  with st1 general show ?thesis by blast
qed

subsection \<open>Geodesy on the equator\<close>

text \<open>
  The values of the two geodesy functions that the sample inputs need, in the arithmetic
  without rounding error: on the equator, from longitude 0 eastward, the distance is the
  arc and the bearing is 90 degrees.
\<close>

lemma atan2_sin_cos:
  assumes "0 \<le> x" and "x < pi / 2"
  shows "js_sqrt exactArith (sin x * sin x) = Finite (sin x)"
    and "js_sqrt exactArith (1 - sin x * sin x) = Finite (cos x)"
    and "atan2 (sin x) (cos x) = x"
proof -
  have c: "0 < cos x" using assms by (intro cos_gt_zero_pi) simp_all
  have s: "0 \<le> sin x" using assms by (intro sin_ge_zero) simp_all
  have "sin x * sin x + cos x * cos x = 1"
    using sin_cos_squared_add [of x] by (simp add: power2_eq_square)
  then have one: "1 - sin x * sin x = cos x * cos x" by linarith
  have "\<not> sin x * sin x < 0" by (simp add: not_less)
  then show "js_sqrt exactArith (sin x * sin x) = Finite (sin x)"
    using s by (simp add: js_sqrt_def exactArith_def)
  have "\<not> cos x * cos x < 0" by (simp add: not_less)
  then show "js_sqrt exactArith (1 - sin x * sin x) = Finite (cos x)"
    unfolding one using c by (simp add: js_sqrt_def exactArith_def)
  have "arctan (sin x / cos x) = x"
    using arctan_tan [of x] assms by (simp add: tan_def)
  then show "atan2 (sin x) (cos x) = x" using c by (simp add: atan2_def)
qed

lemma calculateDistance_equator:
  assumes "0 \<le> lon" and "lon < 180"
  shows "calculateDistance exactArith 0 0 0 lon = Finite (6371000 * (lon * pi / 180))"
proof -
  have a: "0 \<le> lon * pi / 180 / 2" using assms by simp
  have "lon * pi < 180 * pi" using assms by simp
  then have b: "lon * pi / 180 / 2 < pi / 2" by simp
  define x where "x = lon * pi / 180 / 2"
  note eval = atan2_sin_cos [of x, OF a [folded x_def] b [folded x_def]]
  have "calculateDistance exactArith 0 0 0 lon
      = (case js_sqrt exactArith (sin x * sin x) of
           NaN \<Rightarrow> NaN
         | Finite s \<Rightarrow>
             (case js_sqrt exactArith (1 - sin x * sin x) of
                NaN \<Rightarrow> NaN
              | Finite t \<Rightarrow> Finite (6371000 * (2 * atan2 s t))))"
    by (simp add: calculateDistance_def exactArith_def Let_def x_def js_sqrt_def
        split: number.split)
  also have "\<dots> = Finite (6371000 * (2 * x))"
    by (simp only: eval number.case)
  also have "\<dots> = Finite (6371000 * (lon * pi / 180))"
    by (simp add: x_def)
  finally show ?thesis .
qed

lemma calculateDistance_same_point: "calculateDistance exactArith lat lon lat lon = Finite 0"
  by (simp add: calculateDistance_def exactArith_def atan2_def js_sqrt_def)

lemma calculateBearing_east:
  assumes "0 < lon" and "lon < 180"
  shows "calculateBearing 0 0 0 lon = 90"
proof -
  have "lon * pi < 180 * pi" using assms by simp
  then have "lon * pi / 180 < pi" by simp
  moreover have "0 < lon * pi / 180" using assms by simp
  ultimately have "0 < sin (lon * pi / 180)" by (rule sin_gt_zero [rotated])
  then show ?thesis
    by (simp add: calculateBearing_def atan2_def Let_def js_rem_def trunc_def)
qed

lemma distance_111m: "calculateDistance exactArith 0 0 0 (1 / 1000) = Finite (6371 * pi / 180)"
  using calculateDistance_equator [of "1 / 1000"] by simp

lemma distance_111m_beyond_threshold: "(15::real) \<le> 6371 * pi / 180"
proof -
  have "15 \<le> 6371 * 2 / (180::real)" by simp
  also have "\<dots> \<le> 6371 * pi / 180" using pi_ge_two by simp
  finally show ?thesis .
qed

subsection \<open>Next index and arrival\<close>

lemma js_lt_Finite: "js_lt v (Finite t) = (\<exists>d. v = Finite d \<and> d < t)"
  by (cases v) simp_all

text \<open>
  C1. After a fix on a non-empty list, with \<open>nearest\<close> the index that \<open>findNearestNode\<close>
  returns, the published \<open>nextNodeIndex\<close> is \<open>min (nearest + 1) (length - 1)\<close>, which is the
  last index when \<open>nearest\<close> is the last index and \<open>nearest + 1\<close> otherwise; the published
  distance, relative bearing and instruction are those of the path node at that index.
\<close>

theorem next_index_is_clamped_successor:
  assumes "pathNodes \<noteq> []"
  shows "\<exists>st' nearest nextIndex.
     handleLocationUpdate fp pathNodes st position = Inr st'
     \<and> findNearestNode fp (locationOf position) pathNodes = Some nearest
     \<and> nearestNodeIndex (useNavigationEngine pathNodes st') = Some nearest
     \<and> nextIndex = min (nearest + 1) (length pathNodes - 1)
     \<and> nextIndex = (if nearest = length pathNodes - 1 then length pathNodes - 1 else nearest + 1)
     \<and> nextIndex < length pathNodes
     \<and> nextNodeIndex (useNavigationEngine pathNodes st') = Some nextIndex
     \<and> distance st' = distanceTo fp (locationOf position) (pathNodes ! nextIndex)
     \<and> relativeBearing st' =
         (case userHeading st of
            None \<Rightarrow> 0
          | Some h \<Rightarrow>
              normalizeBearingDifference
                (bearingTo (locationOf position) (pathNodes ! nextIndex) - h))
     \<and> movementInstruction st' =
         generateMovementInstruction (relativeBearing st') (distance st')
           (Some (pathNodes ! nextIndex))"
proof -
  from next_index_facts [OF assms, of fp "locationOf position"] obtain nearest nextIndex where
    n: "findNearestNode fp (locationOf position) pathNodes = Some nearest"
      "nextIndex = min (nearest + 1) (length pathNodes - 1)"
      "nextIndex < length pathNodes"
      "(if int nearest < int (length pathNodes) - 1 then Some (nearest + 1) else Some nearest)
        = Some nextIndex"
      "nextIndex = (if nearest = length pathNodes - 1 then length pathNodes - 1 else nearest + 1)"
    by blast
  note step = handleLocationUpdate_nonempty [OF assms n(1) n(2) refl, of st]
  from n(2,3,4,5) show ?thesis
    unfolding step by (simp add: useNavigationEngine_def n(1) split: option.split)
qed

theorem next_index_is_clamped_successor_witness:
  "[plainNode 1 1, plainNode 1 1] \<noteq> []
   \<and> (\<exists>st'. handleLocationUpdate exactArith [plainNode 1 1, plainNode 1 1] initialState
               (fixAt 0 0 Undefined) = Inr st'
        \<and> nearestNodeIndex (useNavigationEngine [plainNode 1 1, plainNode 1 1] st') = Some 0
        \<and> nextNodeIndex (useNavigationEngine [plainNode 1 1, plainNode 1 1] st') = Some 1)"
proof -
  let ?nodes = "[plainNode 1 1, plainNode 1 1]"
  have ne: "?nodes \<noteq> []" by simp
  have near: "findNearestNode exactArith (locationOf (fixAt 0 0 Undefined)) ?nodes = Some 0"
    by (simp add: findNearestNode_def findNearestNode_loop.simps js_lt_irrefl)
  from next_index_is_clamped_successor [OF ne, of exactArith initialState "fixAt 0 0 Undefined"] near
  show ?thesis by auto
qed

text \<open>
  C2. After a fix on a non-empty list, in the published snapshot "arrived at next" holds
  exactly when the distance to the next path node is a number below 15 meters, and
  "arrived at destination" holds exactly when the next index is the last index and "arrived
  at next" holds; the cells hold the same values. Neither flag depends on the flags
  published before: when the fix is 15 meters or more from the last path node, "arrived at
  destination" is false after the fix even if it was true before.
\<close>

theorem arrival_flags_recomputed:
  assumes "pathNodes \<noteq> []"
  shows "\<exists>st' out nextIndex.
     handleLocationUpdate fp pathNodes st position = Inr st'
     \<and> out = useNavigationEngine pathNodes st'
     \<and> nextNodeIndex out = Some nextIndex
     \<and> nextIndex < length pathNodes
     \<and> distance out = distanceTo fp (locationOf position) (pathNodes ! nextIndex)
     \<and> arrivednextNode out = (\<exists>d. distance out = Finite d \<and> d < 15)
     \<and> arriveAtDestination out = (nextIndex = length pathNodes - 1 \<and> arrivednextNode out)
     \<and> distance st' = distance out
     \<and> arrivednextNode st' = arrivednextNode out
     \<and> arriveAtDestination st' = arriveAtDestination out
     \<and> (\<forall>d. arriveAtDestination (useNavigationEngine pathNodes st)
             \<and> distanceTo fp (locationOf position) (last pathNodes) = Finite d \<and> 15 \<le> d
          \<longrightarrow> \<not> arriveAtDestination out)"
proof -
  from next_index_facts [OF assms, of fp "locationOf position"] obtain nearest nextIndex where
    n: "findNearestNode fp (locationOf position) pathNodes = Some nearest"
      "nextIndex = min (nearest + 1) (length pathNodes - 1)"
      "nextIndex < length pathNodes"
      "(if int nearest < int (length pathNodes) - 1 then Some (nearest + 1) else Some nearest)
        = Some nextIndex"
    by blast
  note step = handleLocationUpdate_nonempty [OF assms n(1) n(2) refl, of st]
  have "pathNodes ! (length pathNodes - 1) = last pathNodes"
    using assms by (simp add: last_conv_nth)
  then have away: "\<not> (nextIndex = length pathNodes - 1
      \<and> js_lt (distanceTo fp (locationOf position) (pathNodes ! nextIndex)) (Finite 15))"
    if "distanceTo fp (locationOf position) (last pathNodes) = Finite d" and "15 \<le> d" for d
    using that by auto
  show ?thesis
    unfolding step using n(3) n(4) away
    by (auto simp: useNavigationEngine_def n(1) js_lt_Finite)
qed

theorem arrival_flags_recomputed_witness:
  "[plainNode 0 (1 / 1000)] \<noteq> []
   \<and> (\<exists>d. distanceTo exactArith (locationOf (fixAt 0 0 Undefined)) (last [plainNode 0 (1 / 1000)])
            = Finite d \<and> 15 \<le> d)
   \<and> (\<exists>st1 st2.
         handleLocationUpdate exactArith [plainNode 0 (1 / 1000)] initialState
           (fixAt 0 (1 / 1000) Undefined) = Inr st1
         \<and> arriveAtDestination (useNavigationEngine [plainNode 0 (1 / 1000)] st1)
         \<and> handleLocationUpdate exactArith [plainNode 0 (1 / 1000)] st1 (fixAt 0 0 Undefined) = Inr st2
         \<and> \<not> arriveAtDestination (useNavigationEngine [plainNode 0 (1 / 1000)] st2))"
proof -
  let ?nodes = "[plainNode 0 (1 / 1000)]"
  let ?near = "fixAt 0 (1 / 1000) Undefined"
  let ?away = "fixAt 0 0 Undefined"
  have ne: "?nodes \<noteq> []" by simp
  have near: "distanceTo exactArith (locationOf ?near) (plainNode 0 (1 / 1000)) = Finite 0"
    by (simp add: distanceTo_def locationOf_def fixAt_def plainNode_def
        calculateDistance_same_point)
  have far: "distanceTo exactArith (locationOf ?away) (last ?nodes) = Finite (6371 * pi / 180)"
    using distance_111m
    by (simp add: distanceTo_def locationOf_def fixAt_def plainNode_def)
  note beyond = distance_111m_beyond_threshold
  from arrival_flags_recomputed [OF ne, of exactArith initialState ?near] obtain st1 i where
    st1: "handleLocationUpdate exactArith ?nodes initialState ?near = Inr st1"
      "i < length ?nodes"
      "distance (useNavigationEngine ?nodes st1) = distanceTo exactArith (locationOf ?near) (?nodes ! i)"
      "arrivednextNode (useNavigationEngine ?nodes st1)
         = (\<exists>d. distance (useNavigationEngine ?nodes st1) = Finite d \<and> d < 15)"
      "arriveAtDestination (useNavigationEngine ?nodes st1)
         = (i = length ?nodes - 1 \<and> arrivednextNode (useNavigationEngine ?nodes st1))"
    by blast
  from st1(2) have "i = 0" by simp
  with st1(3,4,5) near have arrived: "arriveAtDestination (useNavigationEngine ?nodes st1)"
    by simp
  from arrival_flags_recomputed [OF ne, of exactArith st1 ?away] obtain st2 where
    st2: "handleLocationUpdate exactArith ?nodes st1 ?away = Inr st2"
      "\<forall>d. arriveAtDestination (useNavigationEngine ?nodes st1)
             \<and> distanceTo exactArith (locationOf ?away) (last ?nodes) = Finite d \<and> 15 \<le> d
          \<longrightarrow> \<not> arriveAtDestination (useNavigationEngine ?nodes st2)"
    by blast
  from st2(2) arrived far beyond
  have "\<not> arriveAtDestination (useNavigationEngine ?nodes st2)" by blast
  with ne far beyond st1(1) arrived st2(1) show ?thesis by blast
qed

subsection \<open>Errors\<close>

lemma commitEffects_registers_nonempty:
  assumes "watches (snd (commitEffects props st geo)) w = Some cb"
    and "watches geo w \<noteq> Some cb"
  shows "cb_pathNodes cb \<noteq> []"
  using assms
  by (auto simp: commitEffects_def trackingEffect_def trackingCleanup_def watchPosition_def
      clearWatch_def Let_def split: if_splits option.splits)

lemma commitEffects_subscribed:
  assumes "p_enabled props" and "p_pathNodes props \<noteq> []"
    and "watchIdRef st = Some w" and "watches geo w = Some cb"
  shows "\<exists>st' geo' w' cb'. commitEffects props st geo = (st', geo')
     \<and> watchIdRef st' = Some w' \<and> watches geo' w' = Some cb'
     \<and> useNavigationEngine pathNodes st' = useNavigationEngine pathNodes st"
  using assms
  by (auto simp: commitEffects_def trackingEffect_def trackingCleanup_def watchPosition_def
      clearWatch_def useNavigationEngine_def Let_def split: if_splits option.splits)

lemma commitEffects_replaces_watch:
  assumes "effectDeps st \<noteq> Some (effectDepsOf props st)" and "effectCleanup st"
    and "watchIdRef st = Some w" and "w < nextWatchId geo"
    and "p_enabled props" and "p_pathNodes props \<noteq> []"
  shows "watches (snd (commitEffects props st geo)) w = None
     \<and> watchIdRef (fst (commitEffects props st geo)) = Some (nextWatchId geo)
     \<and> watches (snd (commitEffects props st geo)) (nextWatchId geo)
         = Some \<lparr>cb_pathNodes = p_pathNodes props, cb_userHeading = userHeading st\<rparr>"
  using assms
  by (simp add: commitEffects_def trackingEffect_def trackingCleanup_def watchPosition_def
      clearWatch_def Let_def)

text \<open>
  C7, as amended. \<open>updateNavigationState\<close> on an empty list sets the instruction to "No
  path nodes available" and changes no other cell, so the published indices, distance,
  relative bearing, heading and arrival flags keep their values. A location error sets the
  instruction to "Location error: " followed by the message and changes no other cell. The
  error callback touches neither \<open>watchIdRef\<close> nor the location service. In the render that
  follows, the effect does not run when its dependencies are those of the previous render,
  and the watch stays registered; when they differ, the cleanup clears the watch and the
  effect registers a new one. When the hook is enabled on a non-empty list and held a
  registered watch before the error, it holds a registered watch after that render in
  every case. Every callback that the effect registers is closed over a non-empty list, so
  the empty branch of \<open>updateNavigationState\<close> is not reached through
  \<open>handleLocationUpdate\<close>.
\<close>

theorem errors_change_instruction_only:
  "updateNavigationState fp [] capturedHeading location st
     = Inr (st\<lparr>movementInstruction := ''No path nodes available''\<rparr>)
   \<and> useNavigationEngine pathNodes (st\<lparr>movementInstruction := ''No path nodes available''\<rparr>)
     = (useNavigationEngine pathNodes st)\<lparr>movementInstruction := ''No path nodes available''\<rparr>
   \<and> handleLocationError st err = st\<lparr>movementInstruction := ''Location error: '' @ message err\<rparr>
   \<and> useNavigationEngine pathNodes (handleLocationError st err)
     = (useNavigationEngine pathNodes st)\<lparr>movementInstruction := ''Location error: '' @ message err\<rparr>
   \<and> (effectDeps st = Some (effectDepsOf props st)
        \<longrightarrow> commitEffects props (handleLocationError st err) geo = (handleLocationError st err, geo))
   \<and> (effectDeps st \<noteq> Some (effectDepsOf props1 st) \<and> effectCleanup st
        \<and> watchIdRef st = Some w \<and> w < nextWatchId geo
        \<and> p_enabled props1 \<and> p_pathNodes props1 \<noteq> []
        \<longrightarrow> watches (snd (commitEffects props1 (handleLocationError st err) geo)) w = None
          \<and> watchIdRef (fst (commitEffects props1 (handleLocationError st err) geo))
              = Some (nextWatchId geo)
          \<and> watches (snd (commitEffects props1 (handleLocationError st err) geo)) (nextWatchId geo)
              = Some \<lparr>cb_pathNodes = p_pathNodes props1, cb_userHeading = userHeading st\<rparr>)
   \<and> (p_enabled props \<and> p_pathNodes props \<noteq> []
        \<and> (\<exists>w cb. watchIdRef st = Some w \<and> watches geo w = Some cb)
        \<longrightarrow> (\<exists>st' geo' w cb.
               commitEffects props (handleLocationError st err) geo = (st', geo')
               \<and> watchIdRef st' = Some w \<and> watches geo' w = Some cb
               \<and> useNavigationEngine pathNodes st'
                   = useNavigationEngine pathNodes (handleLocationError st err)))
   \<and> (watches (snd (commitEffects props0 st0 geo0)) w0 = Some cb0 \<and> watches geo0 w0 \<noteq> Some cb0
        \<longrightarrow> cb_pathNodes cb0 \<noteq> [])"
proof -
  have empty: "updateNavigationState fp [] capturedHeading location st
     = Inr (st\<lparr>movementInstruction := ''No path nodes available''\<rparr>)"
    by (simp add: updateNavigationState_def)
  have published: "useNavigationEngine pathNodes (st\<lparr>movementInstruction := msg\<rparr>)
     = (useNavigationEngine pathNodes st)\<lparr>movementInstruction := msg\<rparr>" for msg
    by (simp add: useNavigationEngine_def)
  have err: "handleLocationError st err
     = st\<lparr>movementInstruction := ''Location error: '' @ message err\<rparr>"
    by (simp add: handleLocationError_def)
  have same: "commitEffects props (handleLocationError st err) geo = (handleLocationError st err, geo)"
    if "effectDeps st = Some (effectDepsOf props st)"
    using that by (simp add: commitEffects_def handleLocationError_def effectDepsOf_def)
  have replaced: "watches (snd (commitEffects props1 (handleLocationError st err) geo)) w = None
          \<and> watchIdRef (fst (commitEffects props1 (handleLocationError st err) geo))
              = Some (nextWatchId geo)
          \<and> watches (snd (commitEffects props1 (handleLocationError st err) geo)) (nextWatchId geo)
              = Some \<lparr>cb_pathNodes = p_pathNodes props1, cb_userHeading = userHeading st\<rparr>"
    if "effectDeps st \<noteq> Some (effectDepsOf props1 st)" and "effectCleanup st"
      and "watchIdRef st = Some w" and "w < nextWatchId geo"
      and "p_enabled props1" and "p_pathNodes props1 \<noteq> []"
  proof -
    have "effectDeps (handleLocationError st err)
        \<noteq> Some (effectDepsOf props1 (handleLocationError st err))"
      and "effectCleanup (handleLocationError st err)"
      and "watchIdRef (handleLocationError st err) = Some w"
      using that(1,2,3) by (simp_all add: handleLocationError_def effectDepsOf_def)
    from commitEffects_replaces_watch [OF this that(4) that(5) that(6)]
    show ?thesis by (simp add: handleLocationError_def)
  qed
  have subscribed: "\<exists>st' geo' w cb.
        commitEffects props (handleLocationError st err) geo = (st', geo')
        \<and> watchIdRef st' = Some w \<and> watches geo' w = Some cb
        \<and> useNavigationEngine pathNodes st' = useNavigationEngine pathNodes (handleLocationError st err)"
    if "p_enabled props" and "p_pathNodes props \<noteq> []"
      and "\<exists>w cb. watchIdRef st = Some w \<and> watches geo w = Some cb"
  proof -
    from that(3) obtain w cb where
      "watchIdRef (handleLocationError st err) = Some w" and "watches geo w = Some cb"
      by (auto simp: handleLocationError_def)
    from commitEffects_subscribed [OF that(1) that(2) this] show ?thesis .
  qed
  from commitEffects_registers_nonempty
  have registered: "cb_pathNodes cb0 \<noteq> []"
    if "watches (snd (commitEffects props0 st0 geo0)) w0 = Some cb0"
      and "watches geo0 w0 \<noteq> Some cb0"
    using that by blast
  from empty published err same replaced subscribed registered show ?thesis
    unfolding err by blast
qed

lemma mounted:
  "commitEffects sampleProps initialState idleGeolocation
     = (initialState\<lparr>watchIdRef := Some 0, effectCleanup := True,
                      effectDeps := Some (effectDepsOf sampleProps initialState)\<rparr>,
        \<lparr>watches = [0 \<mapsto> \<lparr>cb_pathNodes = [plainNode 0 0], cb_userHeading = None\<rparr>],
         nextWatchId = 1\<rparr>)"
  by (simp add: commitEffects_def trackingEffect_def watchPosition_def sampleProps_def
      initialState_def idleGeolocation_def effectDepsOf_def Let_def)

lemma mountedState_eq:
  "mountedState
     = initialState\<lparr>watchIdRef := Some 0, effectCleanup := True,
                      effectDeps := Some (effectDepsOf sampleProps initialState)\<rparr>"
  by (simp add: mountedState_def mounted)

lemma mountedGeolocation_eq:
  "mountedGeolocation
     = \<lparr>watches = [0 \<mapsto> \<lparr>cb_pathNodes = [plainNode 0 0], cb_userHeading = None\<rparr>],
        nextWatchId = 1\<rparr>"
  by (simp add: mountedGeolocation_def mounted)

theorem errors_change_instruction_only_witness:
  "effectDeps mountedState = Some (effectDepsOf sampleProps mountedState)
   \<and> effectDeps mountedState \<noteq> Some (effectDepsOf (sampleProps\<lparr>p_pathNodesRef := 1\<rparr>) mountedState)
   \<and> effectCleanup mountedState
   \<and> p_enabled sampleProps \<and> p_pathNodes sampleProps \<noteq> []
   \<and> watchIdRef mountedState = Some 0 \<and> 0 < nextWatchId mountedGeolocation
   \<and> watches mountedGeolocation 0
       = Some \<lparr>cb_pathNodes = [plainNode 0 0], cb_userHeading = None\<rparr>
   \<and> watches idleGeolocation 0 = None
   \<and> commitEffects sampleProps (handleLocationError mountedState \<lparr>message = ''timeout''\<rparr>)
         mountedGeolocation
       = (handleLocationError mountedState \<lparr>message = ''timeout''\<rparr>, mountedGeolocation)
   \<and> watchIdRef (handleLocationError mountedState \<lparr>message = ''timeout''\<rparr>) = Some 0
   \<and> watchIdRef (fst (commitEffects (sampleProps\<lparr>p_pathNodesRef := 1\<rparr>)
         (handleLocationError mountedState \<lparr>message = ''timeout''\<rparr>) mountedGeolocation))
       = Some 1
   \<and> cb_pathNodes \<lparr>cb_pathNodes = [plainNode 0 0], cb_userHeading = None\<rparr> \<noteq> []"
proof -
  let ?err = "\<lparr>message = ''timeout''\<rparr>"
  let ?cb = "\<lparr>cb_pathNodes = [plainNode 0 0], cb_userHeading = None\<rparr>"
  let ?fresh = "sampleProps\<lparr>p_pathNodesRef := 1\<rparr>"
  have deps: "effectDeps mountedState = Some (effectDepsOf sampleProps mountedState)"
    by (simp add: mountedState_eq effectDepsOf_def)
  have changed: "effectDeps mountedState \<noteq> Some (effectDepsOf ?fresh mountedState)"
    by (simp add: mountedState_eq effectDepsOf_def sampleProps_def)
  have cleanup: "effectCleanup mountedState"
    by (simp add: mountedState_eq)
  have props: "p_enabled sampleProps" "p_pathNodes sampleProps \<noteq> []"
    "p_enabled ?fresh" "p_pathNodes ?fresh \<noteq> []"
    by (simp_all add: sampleProps_def)
  have ref: "watchIdRef mountedState = Some 0"
    by (simp add: mountedState_eq)
  have fresh_id: "nextWatchId mountedGeolocation = 1"
    by (simp add: mountedGeolocation_eq)
  have watch: "watches mountedGeolocation 0 = Some ?cb"
    by (simp add: mountedGeolocation_eq)
  have idle: "watches idleGeolocation 0 = None"
    by (simp add: idleGeolocation_def)
  note t = errors_change_instruction_only
    [of _ _ _ mountedState _ ?err sampleProps mountedGeolocation ?fresh 0
        sampleProps initialState idleGeolocation 0 ?cb]
  from t deps
  have kept: "commitEffects sampleProps (handleLocationError mountedState ?err) mountedGeolocation
      = (handleLocationError mountedState ?err, mountedGeolocation)"
    by blast
  from t have "handleLocationError mountedState ?err
      = mountedState\<lparr>movementInstruction := ''Location error: '' @ message ?err\<rparr>"
    by blast
  with ref have ref': "watchIdRef (handleLocationError mountedState ?err) = Some 0"
    by simp
  have below: "0 < nextWatchId mountedGeolocation" by (simp add: fresh_id)
  from t changed cleanup ref below props(3,4)
  have "watchIdRef (fst (commitEffects ?fresh (handleLocationError mountedState ?err)
      mountedGeolocation)) = Some (nextWatchId mountedGeolocation)"
    by blast
  then have replaced: "watchIdRef (fst (commitEffects ?fresh (handleLocationError mountedState ?err)
      mountedGeolocation)) = Some 1"
    by (simp add: fresh_id)
  from watch idle have "watches (snd (commitEffects sampleProps initialState idleGeolocation)) 0 = Some ?cb"
    and "watches idleGeolocation 0 \<noteq> Some ?cb"
    by (simp_all add: mountedGeolocation_def)
  with t have "cb_pathNodes ?cb \<noteq> []" by blast
  with deps changed cleanup props(1,2) ref below watch idle kept ref' replaced
  show ?thesis by blast
qed

text \<open>
  The claim C7 as stated fails on the subscription. The hook is mounted on one path node
  and holds watch 0. After a location error the component renders again; when it passes a
  new array object with the same node, as \<open>NavigationScreen\<close> does on every render,
  \<open>handleLocationUpdate\<close> is a new function, the cleanup clears watch 0 and the effect
  registers watch 1.
\<close>

theorem rerender_with_new_array_replaces_watch:
  "watchIdRef mountedState = Some 0
   \<and> watches mountedGeolocation 0
       = Some \<lparr>cb_pathNodes = [plainNode 0 0], cb_userHeading = None\<rparr>
   \<and> watches (snd (commitEffects (sampleProps\<lparr>p_pathNodesRef := 1\<rparr>)
         (handleLocationError mountedState \<lparr>message = ''timeout''\<rparr>) mountedGeolocation)) 0
       = None
   \<and> watchIdRef (fst (commitEffects (sampleProps\<lparr>p_pathNodesRef := 1\<rparr>)
         (handleLocationError mountedState \<lparr>message = ''timeout''\<rparr>) mountedGeolocation))
       = Some 1
   \<and> watches (snd (commitEffects (sampleProps\<lparr>p_pathNodesRef := 1\<rparr>)
         (handleLocationError mountedState \<lparr>message = ''timeout''\<rparr>) mountedGeolocation)) 1
       = Some \<lparr>cb_pathNodes = [plainNode 0 0], cb_userHeading = None\<rparr>"
  by (simp add: mountedState_eq mountedGeolocation_eq handleLocationError_def
      commitEffects_def trackingEffect_def trackingCleanup_def watchPosition_def clearWatch_def
      effectDepsOf_def sampleProps_def initialState_def Let_def)

subsection \<open>Composition of the instruction\<close>

text \<open>
  C5, as amended. The instruction is the arrival message below 15 meters; otherwise it is
  the base phrase, replaced by the override when the target has one that is not the empty
  string, followed by the landmark suffix, the floor suffix and the distance suffix. When
  the target has no override or a non-empty one, this is the policy as the specification
  states it.
\<close>

theorem instruction_follows_policy:
  "generateMovementInstruction b d nextNode = nonEmptyOverridePolicy b d nextNode
   \<and> ((case nextNode of None \<Rightarrow> True | Some n \<Rightarrow> instructionText n \<noteq> Some [])
        \<longrightarrow> generateMovementInstruction b d nextNode = statedPolicy b d nextNode)"
proof -
  have amended: "generateMovementInstruction b d nextNode = nonEmptyOverridePolicy b d nextNode"
  proof (cases d)
    case NaN
    then show ?thesis
      by (cases nextNode)
        (simp_all add: generateMovementInstruction_def nonEmptyOverridePolicy_def
          ARRIVAL_THRESHOLD_def Let_def landmarkSuffix_def floorSuffix_def distanceSuffix_def
          split: option.split)
  next
    case (Finite m)
    show ?thesis
    proof (cases "m < 15")
      case True
      with Finite show ?thesis
        by (simp add: generateMovementInstruction_def nonEmptyOverridePolicy_def
            ARRIVAL_THRESHOLD_def)
    next
      case False
      then have suffix: "distanceSuffix (Finite m) =
          (if m > 100 then '' in '' @ show_int (round (m / 10) * 10) @ ''m''
           else '' in '' @ show_int (round m) @ ''m'')"
        by (simp add: distanceSuffix_def)
      from False Finite show ?thesis
        by (cases nextNode)
          (simp_all add: generateMovementInstruction_def nonEmptyOverridePolicy_def
            ARRIVAL_THRESHOLD_def Let_def landmarkSuffix_def floorSuffix_def suffix
            split: option.split)
    qed
  qed
  have "nonEmptyOverridePolicy b d nextNode = statedPolicy b d nextNode"
    if "case nextNode of None \<Rightarrow> True | Some n \<Rightarrow> instructionText n \<noteq> Some []"
    using that
    by (auto simp: nonEmptyOverridePolicy_def statedPolicy_def split: option.splits)
  with amended show ?thesis by simp
qed

theorem instruction_follows_policy_witness:
  "instructionText stairsNode \<noteq> Some []
   \<and> generateMovementInstruction 60 (Finite 123) (Some stairsNode)
       = ''Take the stairs toward Library (Floor 2) in 120m''
   \<and> statedPolicy 60 (Finite 123) (Some stairsNode)
       = ''Take the stairs toward Library (Floor 2) in 120m''"
proof -
  have ne: "instructionText stairsNode \<noteq> Some []" by (simp add: stairsNode_def)
  have r: "round (123 / 10 :: real) = 12" by (simp add: round_def)
  have "statedPolicy 60 (Finite 123) (Some stairsNode)
      = ''Take the stairs toward Library (Floor 2) in 120m''"
    by (simp add: statedPolicy_def stairsNode_def plainNode_def landmarkSuffix_def
        floorSuffix_def distanceSuffix_def r show_int_def show_nat.simps digit_char_def)
  moreover from ne instruction_follows_policy [of 60 "Finite 123" "Some stairsNode"]
  have "generateMovementInstruction 60 (Finite 123) (Some stairsNode)
      = statedPolicy 60 (Finite 123) (Some stairsNode)"
    unfolding option.case by blast
  ultimately show ?thesis using ne by simp
qed

text \<open>
  The claim C5 as stated fails when the override is the empty string: the generator keeps
  the base phrase, the stated policy replaces it by the empty string.
\<close>

theorem empty_override_differs_from_stated_policy:
  "generateMovementInstruction 0 (Finite 20) (Some ((plainNode 0 0)\<lparr>instructionText := Some []\<rparr>))
     = ''Continue straight in 20m''
   \<and> statedPolicy 0 (Finite 20) (Some ((plainNode 0 0)\<lparr>instructionText := Some []\<rparr>))
     = '' in 20m''"
  by (simp add: generateMovementInstruction_def statedPolicy_def ARRIVAL_THRESHOLD_def
      bearingPhrase_def plainNode_def landmarkSuffix_def floorSuffix_def distanceSuffix_def
      show_int_def show_nat.simps digit_char_def)

subsection \<open>Heading read by an update\<close>

lemma instruction_starts_with_base_phrase:
  assumes "15 \<le> d" and "instructionText n = None"
  shows "\<exists>rest. generateMovementInstruction b (Finite d) (Some n) = bearingPhrase b @ rest"
  using assms
  by (auto simp: generateMovementInstruction_def ARRIVAL_THRESHOLD_def Let_def
      split: option.splits)

text \<open>
  C3 fails on the code. The path is the node at (0, 0) followed by the node at (0, 0.001),
  about 111 meters to the east, and the first fix is at (0, 0) with heading 0 (north). The
  bearing to the next node is 90, so the relative bearing for the heading of this fix is
  90 and the base phrase for it is "Turn right". The update reads the heading of the
  render, which is still unknown: it stores the heading 0, the relative bearing 0 and an
  instruction that starts with "Continue straight".
\<close>

theorem first_fix_ignores_its_heading:
  "\<exists>st' rest.
     handleLocationUpdate exactArith [plainNode 0 0, plainNode 0 (1 / 1000)] initialState
       (fixAt 0 0 (Value (Finite 0))) = Inr st'
     \<and> userHeading st' = Some 0
     \<and> nextNodeIndex (useNavigationEngine [plainNode 0 0, plainNode 0 (1 / 1000)] st') = Some 1
     \<and> relativeBearing st' = 0
     \<and> movementInstruction st' = ''Continue straight'' @ rest
     \<and> normalizeBearingDifference
         (bearingTo (locationOf (fixAt 0 0 (Value (Finite 0)))) (plainNode 0 (1 / 1000)) - 0) = 90
     \<and> bearingPhrase 90 = ''Turn right''"
proof -
  let ?nodes = "[plainNode 0 0, plainNode 0 (1 / 1000)]"
  let ?loc = "locationOf (fixAt 0 0 (Value (Finite 0)))"
  have ne: "?nodes \<noteq> []" by simp
  have d0: "distanceTo exactArith ?loc (plainNode 0 0) = Finite 0"
    by (simp add: distanceTo_def locationOf_def fixAt_def plainNode_def
        calculateDistance_same_point)
  have d1: "distanceTo exactArith ?loc (plainNode 0 (1 / 1000)) = Finite (6371 * pi / 180)"
    using distance_111m by (simp add: distanceTo_def locationOf_def fixAt_def plainNode_def)
  note far = distance_111m_beyond_threshold
  have near: "findNearestNode exactArith ?loc ?nodes = Some 0"
    by (simp add: findNearestNode_def findNearestNode_loop.simps d0 d1)
  have b: "bearingTo ?loc (plainNode 0 (1 / 1000)) = 90"
    using calculateBearing_east [of "1 / 1000"]
    by (simp add: bearingTo_def locationOf_def fixAt_def plainNode_def)
  have claimed: "normalizeBearingDifference (bearingTo ?loc (plainNode 0 (1 / 1000)) - 0) = 90"
    by (simp add: b normalizeBearingDifference_def)
  have phrase: "bearingPhrase 90 = ''Turn right''" "bearingPhrase 0 = ''Continue straight''"
    by (simp_all add: bearingPhrase_def)
  have "instructionText (plainNode 0 (1 / 1000)) = None" by (simp add: plainNode_def)
  from instruction_starts_with_base_phrase [OF far this, of 0] obtain rest where
    rest: "generateMovementInstruction 0 (distanceTo exactArith ?loc (plainNode 0 (1 / 1000)))
        (Some (plainNode 0 (1 / 1000))) = ''Continue straight'' @ rest"
    unfolding phrase d1 by blast
  have h: "heading (coords (fixAt 0 0 (Value (Finite 0)))) = Value (Finite 0)"
    by (simp add: fixAt_def)
  have nextIndex: "(1::nat) = min (0 + 1) (length ?nodes - 1)" by simp
  have rel: "(0::real) = (case userHeading initialState of None \<Rightarrow> 0
      | Some h \<Rightarrow> normalizeBearingDifference (bearingTo ?loc (?nodes ! 1) - h))"
    by (simp add: initialState_def)
  note step = handleLocationUpdate_nonempty [OF ne near nextIndex rel]
  show ?thesis
    unfolding step using claimed phrase(1) rest
    by (simp add: useNavigationEngine_def h)
qed

end
